theory Spec2Isabelle
  imports Main
begin

section \<open>The upload controller of static/js/app.js\<close>

text \<open>
  The class \<open>ImageClassifier\<close> keeps one field, \<open>currentFile\<close>, and otherwise works on
  the document: it adds and removes the class \<open>d-none\<close> on five elements, writes text
  into three, appends prediction rows and error toasts, and calls \<open>fetch\<close>. The model is
  a record holding that field together with the parts of the document the class touches,
  and one function per method, taking the state and returning the new one. A method that
  can raise returns a \<open>completion\<close>, which keeps the state reached when it raised.

  Toasts and prediction rows are built as markup and assigned to \<open>innerHTML\<close>. The
  model keeps the markup assigned; what the element then shows is the text the browser
  makes of that markup, given by \<open>text_of_markup\<close> below.

  The page's markup is not part of the sources, so the elements the methods look up by id
  are taken to exist. Timers (the toast's removal after five seconds, the bar animation)
  and the \<open>FileReader\<close>'s later \<open>onload\<close> are events of their own and are left out,
  as is \<open>console.error\<close>.
\<close>

subsection \<open>Values\<close>

text \<open>A \<open>File\<close> of the browser, by the three attributes the code reads.\<close>

record jsfile =
  file_name :: string
  file_size :: nat
  file_type :: string

text \<open>
  A value produced by \<open>response.json()\<close>, with \<open>Undefined\<close> added for the reads of
  missing properties. A number is kept by the two things the code asks of one: whether it
  is truthy, and its text in a template literal (the formatting of a double is outside
  the model). An object is its key/value list in the order parsed; for a key given twice
  the last one counts.
\<close>

datatype jsval =
    Undefined
  | Null
  | Bool bool
  | Num bool string
  | Str string
  | Arr "jsval list"
  | Obj "(string \<times> jsval) list"

datatype 's completion = Returned 's | Thrown 's

fun state_of :: "'s completion \<Rightarrow> 's" where
  "state_of (Returned s) = s"
| "state_of (Thrown s) = s"

fun and_then :: "'s completion \<Rightarrow> ('s \<Rightarrow> 's completion) \<Rightarrow> 's completion" where
  "and_then (Returned s) f = f s"
| "and_then (Thrown s) f = Thrown s"

fun catch :: "'s completion \<Rightarrow> ('s \<Rightarrow> 's completion) \<Rightarrow> 's completion" where
  "catch (Returned s) h = Returned s"
| "catch (Thrown s) h = h s"

fun and_finally :: "'s completion \<Rightarrow> ('s \<Rightarrow> 's) \<Rightarrow> 's completion" where
  "and_finally (Returned s) f = Returned (f s)"
| "and_finally (Thrown s) f = Thrown (f s)"

text \<open>\<open>ToBoolean\<close>: what \<open>if (v)\<close> and \<open>v || w\<close> test.\<close>

fun ToBoolean :: "jsval \<Rightarrow> bool" where
  "ToBoolean Undefined = False"
| "ToBoolean Null = False"
| "ToBoolean (Bool b) = b"
| "ToBoolean (Num nonzero text) = nonzero"
| "ToBoolean (Str s) = (s \<noteq> [])"
| "ToBoolean (Arr vs) = True"
| "ToBoolean (Obj kvs) = True"

text \<open>
  \<open>ToString\<close>: what a template literal does to \<open>${v}\<close>. An array joins its elements
  with commas, \<open>null\<close> and \<open>undefined\<close> elements giving the empty text. A parsed object
  has no callable property of its own, so one with a key \<open>toString\<close> cannot be converted
  (a TypeError, \<open>None\<close> here); any other gives \<open>[object Object]\<close>.
\<close>

fun join_comma :: "string option list \<Rightarrow> string option" where
  "join_comma [] = Some []"
| "join_comma [x] = x"
| "join_comma (x # y # ys) =
     (case x of None \<Rightarrow> None
      | Some s \<Rightarrow> (case join_comma (y # ys) of None \<Rightarrow> None
                   | Some r \<Rightarrow> Some (s @ '','' @ r)))"

fun ToString :: "jsval \<Rightarrow> string option" where
  "ToString Undefined = Some ''undefined''"
| "ToString Null = Some ''null''"
| "ToString (Bool b) = Some (if b then ''true'' else ''false'')"
| "ToString (Num nonzero text) = Some text"
| "ToString (Str s) = Some s"
| "ToString (Arr vs) =
     join_comma (map (\<lambda>v. if v = Null \<or> v = Undefined then Some [] else ToString v) vs)"
| "ToString (Obj kvs) =
     (if map_of kvs ''toString'' = None then Some ''[object Object]'' else None)"

text \<open>
  The property read \<open>v.k\<close>, for the keys this program reads (\<open>success\<close>, \<open>error\<close>,
  \<open>predictions\<close>, \<open>processing_time\<close>, \<open>class\<close>, \<open>probability\<close>), none of which a
  prototype supplies. On \<open>null\<close> and \<open>undefined\<close> it raises (\<open>None\<close>).
\<close>

fun get :: "jsval \<Rightarrow> string \<Rightarrow> jsval option" where
  "get Undefined k = None"
| "get Null k = None"
| "get (Obj kvs) k = Some (case map_of (rev kvs) k of None \<Rightarrow> Undefined | Some v \<Rightarrow> v)"
| "get v k = Some Undefined"

text \<open>
  What assigning \<open>v\<close> to an element's \<open>textContent\<close> stores: the empty text for
  \<open>null\<close> and \<open>undefined\<close>, and otherwise the \<open>ToString\<close> of \<open>v\<close>, which may
  raise.
\<close>

fun textContent_of :: "jsval \<Rightarrow> string option" where
  "textContent_of Undefined = Some []"
| "textContent_of Null = Some []"
| "textContent_of v = ToString v"

text \<open>The decimal text of an array index, as \<open>${index + 1}\<close> gives it.\<close>

fun show_nat :: "nat \<Rightarrow> string" where
  "show_nat n =
     (if n < 10 then [''0123456789'' ! n]
      else show_nat (n div 10) @ [''0123456789'' ! (n mod 10)])"

declare show_nat.simps [simp del]

subsection \<open>The state\<close>

text \<open>An element the code creates, by the properties it sets on it.\<close>

record element =
  className :: string
  cssText :: string
  innerHTML :: string

text \<open>A call of \<open>fetch\<close>: the address, the method and the entries of the form data.\<close>

record request =
  url :: string
  http_method :: string
  form_data :: "(string \<times> jsfile) list"

text \<open>
  The field \<open>currentFile\<close> (\<open>None\<close> for \<open>null\<close>) and the document. A field ending in
  \<open>_d_none\<close> says whether the element of that id carries the class \<open>d-none\<close>.
  \<open>file_size_bytes\<close> is the number handed to \<open>formatFileSize\<close> for the text of
  \<open>#file-size\<close>; the formatting is floating-point arithmetic and is not modelled.
  \<open>processing_time_text\<close> is the text of \<open>#processing-time\<close>.
  \<open>preview_reads\<close> lists the files handed to \<open>readAsDataURL\<close>, \<open>toasts\<close> the alerts
  appended to the body, \<open>fetches\<close> the calls of \<open>fetch\<close>, all oldest first.
  \<open>pending\<close> counts the activations of \<open>classifyImage\<close> that wait for their response.
\<close>

record page =
  currentFile :: "jsfile option"
  file_input_value :: string
  file_info_d_none :: bool
  file_name_text :: string
  file_size_bytes :: nat
  classify_btn_d_none :: bool
  results_section_d_none :: bool
  results_display_d_none :: bool
  processing_d_none :: bool
  predictions_list :: "element list"
  processing_time_text :: string
  preview_reads :: "jsfile list"
  toasts :: "element list"
  fetches :: "request list"
  pending :: nat

text \<open>The constructor, on the page as loaded.\<close>

definition constructor :: "page \<Rightarrow> page" where
  "constructor doc = doc\<lparr>currentFile := None\<rparr>"

subsection \<open>Notifications\<close>

text \<open>A line break of a template literal followed by \<open>n\<close> blanks of indentation.\<close>

definition ln :: "nat \<Rightarrow> string" where
  "ln n = CHR 0x0A # replicate n CHR '' ''"

definition toast_markup :: "string \<Rightarrow> string" where
  \<open>toast_markup message =
     ln 12 @ ''<i class="fas fa-exclamation-triangle me-2"></i>'' @
     ln 12 @ message @
     ln 12 @ ''<button type="button" class="btn-close" data-bs-dismiss="alert"></button>'' @
     ln 8\<close>

definition toast :: "string \<Rightarrow> element" where
  "toast message =
     \<lparr>className = ''alert alert-danger alert-dismissible fade show position-fixed'',
      cssText = ''top: 20px; right: 20px; z-index: 9999; min-width: 300px;'',
      innerHTML = toast_markup message\<rparr>"

definition showError :: "jsval \<Rightarrow> page \<Rightarrow> page completion" where
  "showError message st =
     (case ToString message of
        None \<Rightarrow> Thrown st
      | Some m \<Rightarrow> Returned (st\<lparr>toasts := toasts st @ [toast m]\<rparr>))"

subsection \<open>Selecting and clearing a file\<close>

definition isValidImageFile :: "jsfile \<Rightarrow> bool" where
  "isValidImageFile file =
     (file_type file \<in> set [''image/png'', ''image/jpeg'', ''image/jpg'', ''image/gif'',
        ''image/bmp'', ''image/tiff''])"

definition displayFileInfo :: "jsfile \<Rightarrow> page \<Rightarrow> page" where
  "displayFileInfo file st =
     st\<lparr>file_name_text := file_name file,
        file_size_bytes := file_size file,
        file_info_d_none := False\<rparr>"

definition showClassifyButton :: "page \<Rightarrow> page" where
  "showClassifyButton st = st\<lparr>classify_btn_d_none := False\<rparr>"

definition hideResults :: "page \<Rightarrow> page" where
  "hideResults st = st\<lparr>results_section_d_none := True, results_display_d_none := True\<rparr>"

text \<open>The argument is \<open>None\<close> when the listener read \<open>files[0]\<close> of an empty list.\<close>

definition handleFileSelect :: "jsfile option \<Rightarrow> page \<Rightarrow> page completion" where
  "handleFileSelect candidate st =
     (case candidate of
        None \<Rightarrow> Returned st
      | Some file \<Rightarrow>
          if \<not> isValidImageFile file then
            showError (Str ''Please select a valid image file (PNG, JPG, JPEG, GIF, BMP, TIFF)'') st
          else if file_size file > 16 * 1024 * 1024 then
            showError (Str ''File size must be less than 16MB'') st
          else
            Returned (hideResults (showClassifyButton
              (displayFileInfo file (st\<lparr>currentFile := Some file\<rparr>)))))"

definition clearFile :: "page \<Rightarrow> page" where
  "clearFile st =
     st\<lparr>currentFile := None,
        file_info_d_none := True,
        classify_btn_d_none := True,
        results_section_d_none := True,
        file_input_value := []\<rparr>"

subsection \<open>Classifying\<close>

definition showProcessing :: "page \<Rightarrow> page" where
  "showProcessing st =
     st\<lparr>processing_d_none := False,
        results_section_d_none := False,
        results_display_d_none := True\<rparr>"

definition hideProcessing :: "page \<Rightarrow> page" where
  "hideProcessing st = st\<lparr>processing_d_none := True\<rparr>"

definition classify_request :: "jsfile \<Rightarrow> request" where
  "classify_request file =
     \<lparr>url = ''/classify'', http_method = ''POST'', form_data = [(''image'', file)]\<rparr>"

text \<open>
  \<open>classifyImage\<close> up to its first \<open>await\<close>: the guard on \<open>currentFile\<close>, the
  processing indicator, the form data and the call of \<open>fetch\<close>, after which the
  activation waits.
\<close>

definition classifyImage_call :: "page \<Rightarrow> page" where
  "classifyImage_call st =
     (case currentFile st of
        None \<Rightarrow> st
      | Some file \<Rightarrow>
          (showProcessing st)\<lparr>fetches := fetches st @ [classify_request file],
                                 pending := Suc (pending st)\<rparr>)"

text \<open>
  What the two awaits deliver: \<open>fetch\<close> rejects, or it resolves with a status and
  \<open>response.json()\<close> then rejects (\<open>None\<close>: a body that is absent or not JSON) or
  resolves with the parsed value. Nothing of the state is read or written between the
  two awaits when the status is a success, so they are taken as one.
\<close>

datatype outcome = NetworkError | Response nat "jsval option"

definition response_ok :: "nat \<Rightarrow> bool" where
  "response_ok status = (200 \<le> status \<and> status \<le> 299)"

definition displayImagePreview :: "page \<Rightarrow> page completion" where
  "displayImagePreview st =
     (case currentFile st of
        None \<Rightarrow> Thrown st
      | Some file \<Rightarrow> Returned (st\<lparr>preview_reads := preview_reads st @ [file]\<rparr>))"

definition bar_markup :: "string \<Rightarrow> string" where
  \<open>bar_markup confidencePercentage =
     ln 16 @ ''<div class="confidence-bar">'' @
     ln 20 @ ''<div class="confidence-fill" style="width: '' @ confidencePercentage @
       ''%"></div>'' @
     ln 16 @ ''</div>'' @
     ln 12\<close>

definition item_markup :: "string \<Rightarrow> string \<Rightarrow> nat \<Rightarrow> string" where
  \<open>item_markup class_text confidencePercentage index =
     ln 16 @ ''<div class="d-flex justify-content-between align-items-center">'' @
     ln 20 @ ''<div>'' @
     ln 24 @ ''<h6 class="mb-1">'' @ class_text @ ''</h6>'' @
     ln 24 @ ''<small class="text-muted">Confidence: '' @ confidencePercentage @
       ''%</small>'' @
     ln 20 @ ''</div>'' @
     ln 20 @ ''<div class="text-end">'' @
     ln 24 @ ''<span class="badge bg-primary">'' @ show_nat (index + 1) @ ''</span>'' @
     ln 20 @ ''</div>'' @
     ln 16 @ ''</div>'' @
     ln 16 @ bar_markup confidencePercentage @
     ln 12\<close>

text \<open>
  The element one turn of the \<open>forEach\<close> builds; \<open>None\<close> when the turn raises, which
  it does before \<open>appendChild\<close>.
\<close>

definition predictionItem :: "jsval \<Rightarrow> nat \<Rightarrow> element option" where
  "predictionItem prediction index =
     (case get prediction ''probability'' of
        None \<Rightarrow> None
      | Some confidencePercentage \<Rightarrow>
          (case ToString confidencePercentage of
             None \<Rightarrow> None
           | Some pct \<Rightarrow>
               (case get prediction ''class'' of
                  None \<Rightarrow> None
                | Some cls \<Rightarrow>
                    (case ToString cls of
                       None \<Rightarrow> None
                     | Some class_text \<Rightarrow>
                         Some \<lparr>className = ''prediction-item top-'' @ show_nat (index + 1),
                               cssText = [],
                               innerHTML = item_markup class_text pct index\<rparr>))))"

fun forEach_prediction :: "jsval list \<Rightarrow> nat \<Rightarrow> page \<Rightarrow> page completion" where
  "forEach_prediction [] index st = Returned st"
| "forEach_prediction (prediction # rest) index st =
     (case predictionItem prediction index of
        None \<Rightarrow> Thrown st
      | Some predictionItem' \<Rightarrow>
          forEach_prediction rest (Suc index)
            (st\<lparr>predictions_list := predictions_list st @ [predictionItem']\<rparr>))"

definition displayPredictions :: "jsval \<Rightarrow> page \<Rightarrow> page completion" where
  "displayPredictions predictions st =
     (case predictions of
        Arr ps \<Rightarrow> forEach_prediction ps 0 (st\<lparr>predictions_list := []\<rparr>)
      | _ \<Rightarrow> Thrown (st\<lparr>predictions_list := []\<rparr>))"

definition displayResults :: "jsval \<Rightarrow> page \<Rightarrow> page completion" where
  "displayResults result st =
     and_then
       (and_then
          (displayImagePreview
             (st\<lparr>results_section_d_none := False, results_display_d_none := False\<rparr>))
          (\<lambda>st1. case get result ''predictions'' of
                    None \<Rightarrow> Thrown st1
                  | Some predictions \<Rightarrow> displayPredictions predictions st1))
       (\<lambda>st2. case get result ''processing_time'' of
                 None \<Rightarrow> Thrown st2
               | Some t \<Rightarrow>
                   (case textContent_of t of
                      None \<Rightarrow> Thrown st2
                    | Some text \<Rightarrow> Returned (st2\<lparr>processing_time_text := text\<rparr>)))"

text \<open>The body of the \<open>try\<close> from the first \<open>await\<close> on.\<close>

definition classifyImage_try :: "outcome \<Rightarrow> page \<Rightarrow> page completion" where
  "classifyImage_try outcome st =
     (case outcome of
        NetworkError \<Rightarrow> Thrown st
      | Response status body \<Rightarrow>
          if \<not> response_ok status then Thrown st
          else
            (case body of
               None \<Rightarrow> Thrown st
             | Some result \<Rightarrow>
                 (case get result ''success'' of
                    None \<Rightarrow> Thrown st
                  | Some success \<Rightarrow>
                      if ToBoolean success then displayResults result st
                      else
                        (case get result ''error'' of
                           None \<Rightarrow> Thrown st
                         | Some err \<Rightarrow>
                             showError
                               (if ToBoolean err then err else Str ''Classification failed'')
                               st))))"

text \<open>\<open>classifyImage\<close> from the first \<open>await\<close> to its end: \<open>try\<close>, \<open>catch\<close>, \<open>finally\<close>.\<close>

definition classifyImage_settled :: "outcome \<Rightarrow> page \<Rightarrow> page completion" where
  "classifyImage_settled outcome st =
     and_finally
       (catch (classifyImage_try outcome st)
          (showError (Str ''An error occurred during classification. Please try again.'')))
       hideProcessing"

subsection \<open>Events\<close>

text \<open>
  The listeners the script registers that reach the methods above: the file input's
  \<open>change\<close>, the drop zone's \<open>drop\<close>, the global functions \<open>classifyImage()\<close> and
  \<open>clearFile()\<close> for the page's buttons, the two keyboard shortcuts, and the arrival of
  a response for a waiting activation. An exception that leaves a listener
  leaves the state as it was when raised.
\<close>

datatype event =
    Change "jsfile list"
  | Drop "jsfile list"
  | ClassifyButton
  | ClearButton
  | CtrlEnter
  | Escape
  | Settled outcome

fun first_file :: "jsfile list \<Rightarrow> jsfile option" where
  "first_file [] = None"
| "first_file (f # fs) = Some f"

fun step :: "page \<Rightarrow> event \<Rightarrow> page" where
  "step st (Change files) = state_of (handleFileSelect (first_file files) st)"
| "step st (Drop files) =
     (if length files > 0 then state_of (handleFileSelect (first_file files) st) else st)"
| "step st ClassifyButton = classifyImage_call st"
| "step st ClearButton = clearFile st"
| "step st CtrlEnter = (if currentFile st \<noteq> None then classifyImage_call st else st)"
| "step st Escape = clearFile st"
| "step st (Settled outcome) =
     (if pending st = 0 then st
      else state_of (classifyImage_settled outcome (st\<lparr>pending := pending st - 1\<rparr>)))"

definition run :: "page \<Rightarrow> event list \<Rightarrow> page" where
  "run st events = foldl step st events"

subsection \<open>What the browser makes of assigned markup\<close>

text \<open>
  Assigning to \<open>innerHTML\<close> hands the text to the browser's HTML parser, and what the
  element then shows is the text of the nodes the parser built, not the text assigned.
  \<open>text_of_markup\<close> gives that text (the element's \<open>textContent\<close> after the
  assignment) for a fragment of HTML that contains the templates of this program, and
  \<open>None\<close> for markup outside the fragment, about which the model says nothing. The
  fragment: character data without \<open>&\<close>, NUL and carriage return; a \<open><\<close> that opens no
  tag, which is character data; start tags of the elements \<open>b\<close>, \<open>button\<close>, \<open>div\<close>,
  \<open>h6\<close>, \<open>i\<close>, \<open>small\<close> and \<open>span\<close>, written in lower case, with attributes whose
  values stand in double quotes and hold no \<open>&\<close>; and the end tags of those elements.
  These elements keep the character data between them in the order written.

  The function follows the states of the parser's tokenizer, one character at a time.
\<close>

datatype tokenizer_state =
    Data
  | TagOpen
  | EndTagOpen
  | TagName bool string
  | BeforeAttributeName
  | AttributeName
  | BeforeAttributeValue
  | AttributeValue
  | AfterAttributeValue

definition ascii_lower :: "char \<Rightarrow> bool" where
  "ascii_lower c = (c \<in> set ''abcdefghijklmnopqrstuvwxyz'')"

definition ascii_upper :: "char \<Rightarrow> bool" where
  "ascii_upper c = (c \<in> set ''ABCDEFGHIJKLMNOPQRSTUVWXYZ'')"

definition ascii_digit :: "char \<Rightarrow> bool" where
  "ascii_digit c = (c \<in> set ''0123456789'')"

text \<open>Tab, line feed, form feed and space.\<close>

definition html_space :: "char \<Rightarrow> bool" where
  "html_space c = (c \<in> set [CHR 0x09, CHR 0x0A, CHR 0x0C, CHR '' ''])"

text \<open>A character that is character data wherever it stands.\<close>

definition text_char :: "char \<Rightarrow> bool" where
  \<open>text_char c = (c \<notin> set [CHR ''<'', CHR ''&'', CHR 0x00, CHR 0x0D])\<close>


definition known_element :: "string \<Rightarrow> bool" where
  "known_element name =
     (name \<in> set [''b'', ''button'', ''div'', ''h6'', ''i'', ''small'', ''span''])"

fun tokenize :: "tokenizer_state \<Rightarrow> string \<Rightarrow> string option" where
  "tokenize Data [] = Some []"
| "tokenize Data (c # cs) =
     (if c = CHR ''<'' then tokenize TagOpen cs
      else if c = CHR ''&'' \<or> c = CHR 0x00 \<or> c = CHR 0x0D then None
      else map_option ((#) c) (tokenize Data cs))"
| "tokenize TagOpen [] = Some ''<''"
| "tokenize TagOpen (c # cs) =
     (if ascii_lower c then tokenize (TagName False [c]) cs
      else if c = CHR ''/'' then tokenize EndTagOpen cs
      else if ascii_upper c \<or> c = CHR ''!'' \<or> c = CHR ''?'' then None
      else if c = CHR ''<'' then map_option ((#) CHR ''<'') (tokenize TagOpen cs)
      else if c = CHR ''&'' \<or> c = CHR 0x00 \<or> c = CHR 0x0D then None
      else map_option (\<lambda>r. CHR ''<'' # c # r) (tokenize Data cs))"
| "tokenize EndTagOpen [] = None"
| "tokenize EndTagOpen (c # cs) =
     (if ascii_lower c then tokenize (TagName True [c]) cs
      else if c = CHR ''>'' then tokenize Data cs
      else None)"
| "tokenize (TagName closing name) [] = None"
| "tokenize (TagName closing name) (c # cs) =
     (if c = CHR ''>'' then (if known_element name then tokenize Data cs else None)
      else if html_space c \<and> \<not> closing then
        (if known_element name then tokenize BeforeAttributeName cs else None)
      else if ascii_lower c \<or> ascii_digit c then tokenize (TagName closing (name @ [c])) cs
      else None)"
| "tokenize BeforeAttributeName [] = None"
| "tokenize BeforeAttributeName (c # cs) =
     (if html_space c then tokenize BeforeAttributeName cs
      else if c = CHR ''>'' then tokenize Data cs
      else if ascii_lower c then tokenize AttributeName cs
      else None)"
| "tokenize AttributeName [] = None"
| "tokenize AttributeName (c # cs) =
     (if c = CHR ''='' then tokenize BeforeAttributeValue cs
      else if ascii_lower c \<or> ascii_digit c \<or> c = CHR ''-'' then tokenize AttributeName cs
      else None)"
| "tokenize BeforeAttributeValue [] = None"
| \<open>tokenize BeforeAttributeValue (c # cs) =
     (if c = CHR 0x22 then tokenize AttributeValue cs else None)\<close>
| "tokenize AttributeValue [] = None"
| \<open>tokenize AttributeValue (c # cs) =
     (if c = CHR 0x22 then tokenize AfterAttributeValue cs
      else if c = CHR ''&'' \<or> c = CHR 0x00 \<or> c = CHR 0x0D then None
      else tokenize AttributeValue cs)\<close>
| "tokenize AfterAttributeValue [] = None"
| "tokenize AfterAttributeValue (c # cs) =
     (if html_space c then tokenize BeforeAttributeName cs
      else if c = CHR ''>'' then tokenize Data cs
      else None)"

definition text_of_markup :: "string \<Rightarrow> string option" where
  "text_of_markup markup = tokenize Data markup"

subsection \<open>Validated selections\<close>

text \<open>
  An event that replaces the selected file: a \<open>change\<close> or \<open>drop\<close> whose first file
  passes both checks of \<open>handleFileSelect\<close>.
\<close>

fun accepted_selection :: "event \<Rightarrow> bool" where
  "accepted_selection (Change files) =
     (case first_file files of None \<Rightarrow> False
      | Some f \<Rightarrow> isValidImageFile f \<and> file_size f \<le> 16 * 1024 * 1024)"
| "accepted_selection (Drop files) =
     (case first_file files of None \<Rightarrow> False
      | Some f \<Rightarrow> isValidImageFile f \<and> file_size f \<le> 16 * 1024 * 1024)"
| "accepted_selection e = False"

text \<open>The selected file, when there is one, has an accepted type and at most 16 MiB.\<close>

definition file_ok :: "page \<Rightarrow> bool" where
  "file_ok st =
     (case currentFile st of
        None \<Rightarrow> True
      | Some f \<Rightarrow> isValidImageFile f \<and> file_size f \<le> 16777216)"

subsection \<open>Example inputs\<close>

definition photo :: jsfile where
  "photo = \<lparr>file_name = ''photo.jpg'', file_size = 2097152, file_type = ''image/jpeg''\<rparr>"

definition huge_pdf :: jsfile where
  "huge_pdf =
     \<lparr>file_name = ''scan.pdf'', file_size = 33554432, file_type = ''application/pdf''\<rparr>"

text \<open>A page with nothing selected, nothing shown and nothing requested.\<close>

definition blank :: page where
  "blank =
     \<lparr>currentFile = None, file_input_value = [], file_info_d_none = True,
      file_name_text = [], file_size_bytes = 0, classify_btn_d_none = True,
      results_section_d_none = True, results_display_d_none = True,
      processing_d_none = True, predictions_list = [], processing_time_text = [],
      preview_reads = [], toasts = [], fetches = [], pending = 0\<rparr>"

text \<open>The photo selected and \<open>classifyImage\<close> called once, its response still awaited.\<close>

definition in_flight :: page where
  "in_flight = run (constructor blank) [Change [photo], ClassifyButton]"

text \<open>The same, after the file was cleared while the response is awaited.\<close>

definition in_flight_cleared :: page where
  "in_flight_cleared = run (constructor blank) [Change [photo], ClassifyButton, ClearButton]"






text \<open>The success response of the end-to-end scenario.\<close>

definition golden :: jsval where
  "golden =
     Obj [(''success'', Bool True),
          (''predictions'',
             Arr [Obj [(''class'', Str ''golden retriever''),
                       (''probability'', Num True ''95'')]]),
          (''processing_time'', Num True ''0.15'')]"

section \<open>Properties\<close>

subsection \<open>Auxiliary facts\<close>

lemma showError_Str:
  "showError (Str m) st = Returned (st\<lparr>toasts := toasts st @ [toast m]\<rparr>)"
  by (simp add: showError_def)

lemma toasts_select:
  "toasts (hideResults (showClassifyButton
     (displayFileInfo file (st\<lparr>currentFile := Some file\<rparr>)))) = toasts st"
  by (simp add: hideResults_def showClassifyButton_def displayFileInfo_def)

lemma currentFile_select:
  "currentFile (hideResults (showClassifyButton
     (displayFileInfo file (st\<lparr>currentFile := Some file\<rparr>)))) = Some file"
  by (simp add: hideResults_def showClassifyButton_def displayFileInfo_def)

lemma state_of_and_finally: "state_of (and_finally c f) = f (state_of c)"
  by (cases c) simp_all

lemma and_then_frame:
  assumes "\<And>s. g (state_of (f s)) = g s"
  shows "g (state_of (and_then c f)) = g (state_of c)"
  using assms by (cases c) simp_all

lemma catch_frame:
  assumes "\<And>s. g (state_of (h s)) = g s"
  shows "g (state_of (catch c h)) = g (state_of c)"
  using assms by (cases c) simp_all

lemma isValidImageFile_photo: "isValidImageFile (photo\<lparr>file_size := n\<rparr>)"
  by (simp add: isValidImageFile_def photo_def)

lemma huge_pdf_type:
  "file_type huge_pdf \<notin> {''image/png'', ''image/jpeg'', ''image/jpg'', ''image/gif'',
     ''image/bmp'', ''image/tiff''}"
  by (simp add: huge_pdf_def)

lemma blank_fields:
  "toasts blank = []" "currentFile blank = None" "fetches blank = []" "pending blank = 0"
  "predictions_list blank = []"
  by (simp_all add: blank_def)

lemma in_flight_eq:
  "in_flight =
     blank\<lparr>currentFile := Some photo, file_name_text := ''photo.jpg'',
       file_size_bytes := 2097152, file_info_d_none := False, classify_btn_d_none := False,
       results_section_d_none := False, results_display_d_none := True,
       processing_d_none := False, fetches := [classify_request photo], pending := 1\<rparr>"
  by (simp add: in_flight_def run_def constructor_def blank_def handleFileSelect_def
        isValidImageFile_def photo_def displayFileInfo_def showClassifyButton_def
        hideResults_def classifyImage_call_def showProcessing_def)

lemma in_flight_cleared_eq:
  "in_flight_cleared = clearFile in_flight"
  by (simp add: in_flight_cleared_def in_flight_def run_def)

subsection \<open>The effect of each method on \<open>currentFile\<close> and on the requests\<close>

lemma handleFileSelect_fetches:
  "fetches (state_of (handleFileSelect candidate st)) = fetches st"
  by (cases candidate)
     (simp_all add: handleFileSelect_def showError_Str hideResults_def showClassifyButton_def
        displayFileInfo_def)

lemma handleFileSelect_keeps_None:
  assumes "currentFile st = None"
    and "\<not> (case candidate of None \<Rightarrow> False
         | Some f \<Rightarrow> isValidImageFile f \<and> file_size f \<le> 16 * 1024 * 1024)"
  shows "currentFile (state_of (handleFileSelect candidate st)) = None"
  using assms
  by (cases candidate) (auto simp add: handleFileSelect_def showError_Str)

lemma showError_frame:
  "currentFile (state_of (showError m st)) = currentFile st"
  "fetches (state_of (showError m st)) = fetches st"
  by (simp_all add: showError_def split: option.splits)

lemma forEach_prediction_frame:
  "currentFile (state_of (forEach_prediction ps i st)) = currentFile st
   \<and> fetches (state_of (forEach_prediction ps i st)) = fetches st"
  by (induction ps arbitrary: i st) (simp_all split: option.splits)

lemma displayPredictions_frame:
  "currentFile (state_of (displayPredictions p st)) = currentFile st"
  "fetches (state_of (displayPredictions p st)) = fetches st"
  by (simp_all add: displayPredictions_def forEach_prediction_frame split: jsval.splits)

lemma displayImagePreview_frame:
  "currentFile (state_of (displayImagePreview st)) = currentFile st"
  "fetches (state_of (displayImagePreview st)) = fetches st"
  by (simp_all add: displayImagePreview_def split: option.splits)

lemma displayResults_frame:
  "currentFile (state_of (displayResults r st)) = currentFile st"
  "fetches (state_of (displayResults r st)) = fetches st"
proof -
  let ?f1 = "\<lambda>st1. case get r ''predictions'' of None \<Rightarrow> Thrown st1
                  | Some predictions \<Rightarrow> displayPredictions predictions st1"
  let ?f2 = "\<lambda>st2. case get r ''processing_time'' of None \<Rightarrow> Thrown st2
               | Some t \<Rightarrow>
                   (case textContent_of t of
                      None \<Rightarrow> Thrown st2
                    | Some text \<Rightarrow> Returned (st2\<lparr>processing_time_text := text\<rparr>))"
  have c1: "currentFile (state_of (?f1 s)) = currentFile s" for s
    by (simp add: displayPredictions_frame split: option.splits)
  have c2: "currentFile (state_of (?f2 s)) = currentFile s" for s
    by (simp split: option.splits)
  have q1: "fetches (state_of (?f1 s)) = fetches s" for s
    by (simp add: displayPredictions_frame split: option.splits)
  have q2: "fetches (state_of (?f2 s)) = fetches s" for s
    by (simp split: option.splits)
  show "currentFile (state_of (displayResults r st)) = currentFile st"
    unfolding displayResults_def
    by (simp only: and_then_frame [of currentFile, OF c2] and_then_frame [of currentFile, OF c1]
          displayImagePreview_frame) simp
  show "fetches (state_of (displayResults r st)) = fetches st"
    unfolding displayResults_def
    by (simp only: and_then_frame [of fetches, OF q2] and_then_frame [of fetches, OF q1]
          displayImagePreview_frame) simp
qed

lemma classifyImage_try_frame:
  "currentFile (state_of (classifyImage_try outcome st)) = currentFile st"
  "fetches (state_of (classifyImage_try outcome st)) = fetches st"
  by (simp_all add: classifyImage_try_def displayResults_frame showError_frame
        split: outcome.splits option.splits)

lemma classifyImage_settled_frame:
  "currentFile (state_of (classifyImage_settled outcome st)) = currentFile st"
  "fetches (state_of (classifyImage_settled outcome st)) = fetches st"
proof -
  let ?h = "showError (Str ''An error occurred during classification. Please try again.'')"
  have "currentFile (state_of (catch (classifyImage_try outcome st) ?h)) = currentFile st"
    by (simp add: catch_frame [of currentFile ?h] showError_frame classifyImage_try_frame)
  then show "currentFile (state_of (classifyImage_settled outcome st)) = currentFile st"
    by (simp add: classifyImage_settled_def state_of_and_finally hideProcessing_def)
  have "fetches (state_of (catch (classifyImage_try outcome st) ?h)) = fetches st"
    by (simp add: catch_frame [of fetches ?h] showError_frame classifyImage_try_frame)
  then show "fetches (state_of (classifyImage_settled outcome st)) = fetches st"
    by (simp add: classifyImage_settled_def state_of_and_finally hideProcessing_def)
qed

lemma classifyImage_call_currentFile: "currentFile (classifyImage_call st) = currentFile st"
  by (simp add: classifyImage_call_def showProcessing_def split: option.splits)

lemma settled_thrown:
  assumes "classifyImage_try outcome st = Thrown st"
  shows "classifyImage_settled outcome st =
           Returned (hideProcessing (st\<lparr>toasts := toasts st @
             [toast ''An error occurred during classification. Please try again.'']\<rparr>))"
  using assms by (simp add: classifyImage_settled_def showError_Str)

lemma settled_not_ok:
  assumes "\<not> response_ok status"
  shows "classifyImage_settled (Response status body) st =
           Returned (hideProcessing (st\<lparr>toasts := toasts st @
             [toast ''An error occurred during classification. Please try again.'']\<rparr>))"
  using assms by (simp add: settled_thrown classifyImage_try_def)

subsection \<open>The text of the templates\<close>

lemma tokenize_text:
  assumes "list_all text_char m"
  shows "tokenize Data (m @ rest) = map_option ((@) m) (tokenize Data rest)"
  using assms
proof (induction m)
  case Nil
  show ?case by (cases "tokenize Data rest") simp_all
next
  case (Cons a m)
  then show ?case
    by (cases "tokenize Data rest") (simp_all add: text_char_def)
qed


lemma text_char_ln: "list_all text_char (ln n)"
  by (simp add: ln_def text_char_def list_all_iff)

lemmas tokenizer_tests =
  ascii_lower_def ascii_upper_def ascii_digit_def html_space_def known_element_def

lemma toast_text_shown:
  assumes "\<And>rest. tokenize Data (message @ rest) = map_option ((@) shown) (tokenize Data rest)"
  shows "text_of_markup (toast_markup message) = Some (ln 12 @ ln 12 @ shown @ ln 12 @ ln 8)"
proof -
  have i: "tokenize Data (''<i class=\"fas fa-exclamation-triangle me-2\"></i>'' @ rest) =
      tokenize Data rest" for rest
    by (simp add: tokenizer_tests)
  have b: "tokenize Data
      (''<button type=\"button\" class=\"btn-close\" data-bs-dismiss=\"alert\"></button>'' @ rest) =
      tokenize Data rest" for rest
    by (simp add: tokenizer_tests)
  have e: "tokenize Data (ln 8) = Some (ln 8)"
    using tokenize_text [OF text_char_ln, of 8 "[]"] by simp
  show ?thesis
    unfolding text_of_markup_def toast_markup_def
    by (simp only: tokenize_text [OF text_char_ln] assms i b e) simp
qed

lemma toast_text:
  assumes "list_all text_char message"
  shows "text_of_markup (toast_markup message) = Some (ln 12 @ ln 12 @ message @ ln 12 @ ln 8)"
  by (rule toast_text_shown [OF tokenize_text [OF assms]])





lemma blanks_ln: "set (ln n) \<subseteq> {CHR 0x0A, CHR '' ''}"
  by (auto simp add: ln_def)



lemma toast_text_envelope:
  assumes "list_all text_char message"
  shows "\<exists>pre post. text_of_markup (innerHTML (toast message)) = Some (pre @ message @ post)
           \<and> set pre \<subseteq> {CHR 0x0A, CHR '' ''} \<and> set post \<subseteq> {CHR 0x0A, CHR '' ''}"
proof (intro exI conjI)
  show "text_of_markup (innerHTML (toast message)) =
      Some ((ln 12 @ ln 12) @ message @ (ln 12 @ ln 8))"
    by (simp add: toast_def toast_text [OF assms])
  show "set (ln 12 @ ln 12) \<subseteq> {CHR 0x0A, CHR '' ''}"
    using blanks_ln [of 12] by simp
  show "set (ln 12 @ ln 8) \<subseteq> {CHR 0x0A, CHR '' ''}"
    using blanks_ln [of 12] blanks_ln [of 8] by simp
qed


lemma text_char_general:
  "list_all text_char ''An error occurred during classification. Please try again.''"
  by (simp add: text_char_def)

subsection \<open>Validation of a selected file\<close>

text \<open>
  Claim C2. For a file whose declared type is one of the accepted ones, the selection is
  accepted exactly when its size is at most 16777216 bytes: up to that size
  \<open>handleFileSelect\<close> stores the file and shows its details, above it the only effect
  is the notification that the file is too large. No notification is added if and only
  if the size is at most 16777216.
\<close>

theorem handleFileSelect_size_boundary:
  assumes "isValidImageFile file"
  shows "(file_size file \<le> 16777216 \<longrightarrow>
            handleFileSelect (Some file) st =
              Returned (hideResults (showClassifyButton
                (displayFileInfo file (st\<lparr>currentFile := Some file\<rparr>)))))
       \<and> (16777216 < file_size file \<longrightarrow>
            handleFileSelect (Some file) st =
              Returned (st\<lparr>toasts := toasts st @
                [toast ''File size must be less than 16MB'']\<rparr>))
       \<and> (toasts (state_of (handleFileSelect (Some file) st)) = toasts st
            \<longleftrightarrow> file_size file \<le> 16777216)"
  using assms by (simp add: handleFileSelect_def showError_Str toasts_select)

text \<open>At the boundary: 16777216 bytes are accepted, 16777217 are refused.\<close>

theorem handleFileSelect_size_boundary_witness:
  "currentFile (state_of (handleFileSelect (Some (photo\<lparr>file_size := 16777216\<rparr>)) blank))
      = Some (photo\<lparr>file_size := 16777216\<rparr>)
   \<and> toasts (state_of (handleFileSelect (Some (photo\<lparr>file_size := 16777216\<rparr>)) blank)) = []
   \<and> currentFile (state_of (handleFileSelect (Some (photo\<lparr>file_size := 16777217\<rparr>)) blank))
      = None
   \<and> toasts (state_of (handleFileSelect (Some (photo\<lparr>file_size := 16777217\<rparr>)) blank))
      = [toast ''File size must be less than 16MB'']"
proof -
  have a: "handleFileSelect (Some (photo\<lparr>file_size := 16777216\<rparr>)) blank =
      Returned (hideResults (showClassifyButton
        (displayFileInfo (photo\<lparr>file_size := 16777216\<rparr>)
          (blank\<lparr>currentFile := Some (photo\<lparr>file_size := 16777216\<rparr>)\<rparr>))))"
    using handleFileSelect_size_boundary [OF isValidImageFile_photo, of 16777216 blank]
    by simp
  have b: "handleFileSelect (Some (photo\<lparr>file_size := 16777217\<rparr>)) blank =
      Returned (blank\<lparr>toasts := toasts blank @ [toast ''File size must be less than 16MB'']\<rparr>)"
    using handleFileSelect_size_boundary [OF isValidImageFile_photo, of 16777217 blank]
    by simp
  show ?thesis
    by (simp add: a b blank_fields currentFile_select toasts_select)
qed

text \<open>
  Claim C3. The type is checked before the size: a file whose declared type is none of
  \<open>image/png\<close>, \<open>image/jpeg\<close>, \<open>image/jpg\<close>, \<open>image/gif\<close>, \<open>image/bmp\<close>,
  \<open>image/tiff\<close> is refused with the notification about the type, whatever its size,
  and nothing else of the state changes.
\<close>

theorem handleFileSelect_type_first:
  assumes "file_type file \<notin> {''image/png'', ''image/jpeg'', ''image/jpg'', ''image/gif'',
             ''image/bmp'', ''image/tiff''}"
  shows "handleFileSelect (Some file) st =
           Returned (st\<lparr>toasts := toasts st @
             [toast ''Please select a valid image file (PNG, JPG, JPEG, GIF, BMP, TIFF)'']\<rparr>)"
  using assms by (simp add: handleFileSelect_def isValidImageFile_def showError_Str)

text \<open>A PDF of 32 MiB is refused for its type, not for its size.\<close>

theorem handleFileSelect_type_first_witness:
  "handleFileSelect (Some huge_pdf) blank =
     Returned (blank\<lparr>toasts :=
       [toast ''Please select a valid image file (PNG, JPG, JPEG, GIF, BMP, TIFF)'']\<rparr>)
   \<and> 16 * 1024 * 1024 < file_size huge_pdf"
proof -
  have s: "file_size huge_pdf = 33554432"
    by (simp add: huge_pdf_def)
  show ?thesis
    using handleFileSelect_type_first [OF huge_pdf_type, of blank]
    by (simp add: blank_fields s)
qed

subsection \<open>Selecting and clearing\<close>

text \<open>
  Claim C4. A candidate that fails either check of \<open>handleFileSelect\<close> adds one error
  notification, naming the failed check, and changes nothing else: in particular the
  file selected before stays selected. Conversely, whenever \<open>handleFileSelect\<close> changes
  \<open>currentFile\<close>, the candidate passed both checks and is the new value.
\<close>

theorem handleFileSelect_rejected_frame:
  "(\<not> isValidImageFile file \<or> 16 * 1024 * 1024 < file_size file \<longrightarrow>
      handleFileSelect (Some file) st =
        Returned (st\<lparr>toasts := toasts st @
          [toast (if \<not> isValidImageFile file
                  then ''Please select a valid image file (PNG, JPG, JPEG, GIF, BMP, TIFF)''
                  else ''File size must be less than 16MB'')]\<rparr>)
      \<and> currentFile (state_of (handleFileSelect (Some file) st)) = currentFile st)
   \<and> (currentFile (state_of (handleFileSelect candidate st)) \<noteq> currentFile st \<longrightarrow>
        (\<exists>f. candidate = Some f \<and> isValidImageFile f \<and> file_size f \<le> 16 * 1024 * 1024
           \<and> currentFile (state_of (handleFileSelect candidate st)) = Some f))"
proof (intro conjI impI)
  assume r: "\<not> isValidImageFile file \<or> 16 * 1024 * 1024 < file_size file"
  then show "handleFileSelect (Some file) st =
        Returned (st\<lparr>toasts := toasts st @
          [toast (if \<not> isValidImageFile file
                  then ''Please select a valid image file (PNG, JPG, JPEG, GIF, BMP, TIFF)''
                  else ''File size must be less than 16MB'')]\<rparr>)"
    by (auto simp add: handleFileSelect_def showError_Str)
  from r show "currentFile (state_of (handleFileSelect (Some file) st)) = currentFile st"
    by (auto simp add: handleFileSelect_def showError_Str)
next
  assume ch: "currentFile (state_of (handleFileSelect candidate st)) \<noteq> currentFile st"
  show "\<exists>f. candidate = Some f \<and> isValidImageFile f \<and> file_size f \<le> 16 * 1024 * 1024
           \<and> currentFile (state_of (handleFileSelect candidate st)) = Some f"
  proof (cases candidate)
    case None
    with ch show ?thesis by (simp add: handleFileSelect_def)
  next
    case (Some f)
    with ch have ok: "isValidImageFile f \<and> file_size f \<le> 16 * 1024 * 1024"
      by (auto simp add: handleFileSelect_def showError_Str split: if_splits)
    with Some show ?thesis
      by (simp add: handleFileSelect_def currentFile_select)
  qed
qed

text \<open>With the photo selected, the PDF is refused and the photo stays selected.\<close>

theorem handleFileSelect_rejected_frame_witness:
  "currentFile (state_of (handleFileSelect (Some huge_pdf) in_flight)) = Some photo
   \<and> toasts (state_of (handleFileSelect (Some huge_pdf) in_flight)) =
       [toast ''Please select a valid image file (PNG, JPG, JPEG, GIF, BMP, TIFF)'']"
proof -
  have v: "\<not> isValidImageFile huge_pdf"
    by (simp add: isValidImageFile_def huge_pdf_def)
  then have r: "\<not> isValidImageFile huge_pdf \<or> 16 * 1024 * 1024 < file_size huge_pdf"
    by simp
  have "handleFileSelect (Some huge_pdf) in_flight =
        Returned (in_flight\<lparr>toasts := toasts in_flight @
          [toast ''Please select a valid image file (PNG, JPG, JPEG, GIF, BMP, TIFF)'']\<rparr>)
      \<and> currentFile (state_of (handleFileSelect (Some huge_pdf) in_flight)) =
          currentFile in_flight"
    using handleFileSelect_rejected_frame [of huge_pdf in_flight None] r v by simp
  then show ?thesis
    by (simp add: in_flight_eq blank_fields)
qed

text \<open>
  Events that select no file leave a state without a file without one, and issue no
  request.
\<close>

lemma step_no_file:
  assumes "currentFile st = None" and "\<not> accepted_selection e"
  shows "currentFile (step st e) = None \<and> fetches (step st e) = fetches st"
proof (cases e)
  case (Change files)
  with assms show ?thesis
    by (simp add: handleFileSelect_fetches handleFileSelect_keeps_None)
next
  case (Drop files)
  with assms show ?thesis
    by (simp add: handleFileSelect_fetches handleFileSelect_keeps_None)
next
  case ClassifyButton
  with assms show ?thesis by (simp add: classifyImage_call_def)
next
  case ClearButton
  with assms show ?thesis by (simp add: clearFile_def)
next
  case CtrlEnter
  with assms show ?thesis by simp
next
  case Escape
  with assms show ?thesis by (simp add: clearFile_def)
next
  case (Settled outcome)
  with assms show ?thesis by (simp add: classifyImage_settled_frame)
qed

lemma run_no_file:
  assumes "currentFile st = None" and "\<forall>e \<in> set events. \<not> accepted_selection e"
  shows "currentFile (run st events) = None \<and> fetches (run st events) = fetches st"
  using assms unfolding run_def
proof (induction events arbitrary: st)
  case Nil
  then show ?case by simp
next
  case (Cons e es)
  from Cons.prems have s: "currentFile (step st e) = None \<and> fetches (step st e) = fetches st"
    by (simp add: step_no_file)
  with Cons.IH [of "step st e"] Cons.prems show ?case by simp
qed

text \<open>
  Claim C5. After \<open>clearFile\<close> no file is selected and the page shows neither the file
  details, nor the classify button, nor the results section, and the file input is
  empty; \<open>clearFile\<close> itself issues no request. From there on, through any events among
  which no selection is accepted (further calls of \<open>classifyImage\<close>, refused selections,
  late responses), no file is selected, no request is issued, and \<open>classifyImage\<close>
  changes nothing.
\<close>

theorem clearFile_then_classify_noop:
  "currentFile (clearFile st) = None
   \<and> file_info_d_none (clearFile st) \<and> classify_btn_d_none (clearFile st)
   \<and> results_section_d_none (clearFile st) \<and> file_input_value (clearFile st) = []
   \<and> fetches (clearFile st) = fetches st
   \<and> classifyImage_call (clearFile st) = clearFile st
   \<and> ((\<forall>e \<in> set events. \<not> accepted_selection e) \<longrightarrow>
        currentFile (run (clearFile st) events) = None
        \<and> fetches (run (clearFile st) events) = fetches st
        \<and> classifyImage_call (run (clearFile st) events) = run (clearFile st) events)"
proof -
  have c: "currentFile (clearFile st) = None" "fetches (clearFile st) = fetches st"
    by (simp_all add: clearFile_def)
  have r: "currentFile (run (clearFile st) events) = None
        \<and> fetches (run (clearFile st) events) = fetches st"
    if "\<forall>e \<in> set events. \<not> accepted_selection e"
    using run_no_file [OF c(1) that] c(2) by simp
  have n: "classifyImage_call s = s" if "currentFile s = None" for s
    using that by (simp add: classifyImage_call_def)
  show ?thesis
    using c r n by (simp add: clearFile_def)
qed

text \<open>
  Clearing while the photo's request is awaited, then pressing the button, offering the
  PDF, using the shortcut, receiving a network error and dropping nothing: still the one
  request.
\<close>

theorem clearFile_then_classify_noop_witness:
  "currentFile (run (clearFile in_flight)
      [ClassifyButton, Change [huge_pdf], CtrlEnter, Settled NetworkError, Drop []]) = None
   \<and> fetches (run (clearFile in_flight)
      [ClassifyButton, Change [huge_pdf], CtrlEnter, Settled NetworkError, Drop []]) =
       [classify_request photo]"
proof -
  have v: "\<not> isValidImageFile huge_pdf"
    by (simp add: isValidImageFile_def huge_pdf_def)
  have h: "\<forall>e \<in> set [ClassifyButton, Change [huge_pdf], CtrlEnter, Settled NetworkError, Drop []].
             \<not> accepted_selection e"
    by (simp add: v)
  have f: "fetches in_flight = [classify_request photo]"
    by (simp add: in_flight_eq)
  show ?thesis
    using clearFile_then_classify_noop [of in_flight
        "[ClassifyButton, Change [huge_pdf], CtrlEnter, Settled NetworkError, Drop []]"] h f
    by simp
qed

subsection \<open>The end of a classification\<close>

text \<open>
  Claim C6. Whatever the two awaits deliver (a network error, a status outside 200 to
  299, a body that is not JSON, a parsed body of any shape, a refusal or a success) and
  whether or not the \<open>try\<close> block raised, \<open>classifyImage\<close> ends with
  \<open>hideProcessing\<close>: the processing indicator carries \<open>d-none\<close> afterwards.
\<close>

theorem classifyImage_settled_hides_processing:
  "processing_d_none (state_of (classifyImage_settled outcome st))
   \<and> (\<exists>c. classifyImage_settled outcome st = and_finally c hideProcessing)"
  by (auto simp add: classifyImage_settled_def state_of_and_finally hideProcessing_def)

text \<open>The indicator is shown while the photo's request is awaited and hidden after a network error.\<close>

theorem classifyImage_settled_hides_processing_witness:
  "\<not> processing_d_none in_flight
   \<and> processing_d_none (state_of (classifyImage_settled NetworkError in_flight))"
  using classifyImage_settled_hides_processing [of NetworkError in_flight]
  by (simp add: in_flight_eq)




text \<open>
  Claim C8. With a file selected, a response whose status is outside 200 to 299 (500,
  say) adds one toast, which shows the general error message (a text that is not empty,
  with only line breaks and blanks around it), displays no result, and leaves
  \<open>currentFile\<close> as it was; a following call of \<open>classifyImage\<close> sends that same file
  again.
\<close>

theorem classifyImage_http_error_frame:
  assumes "currentFile st = Some file" and "\<not> response_ok status"
  shows "currentFile (state_of (classifyImage_settled (Response status body) st)) = Some file
       \<and> toasts (state_of (classifyImage_settled (Response status body) st)) =
           toasts st @ [toast ''An error occurred during classification. Please try again.'']
       \<and> (\<exists>pre post.
            text_of_markup (innerHTML
              (last (toasts (state_of (classifyImage_settled (Response status body) st))))) =
              Some (pre @ ''An error occurred during classification. Please try again.'' @ post)
            \<and> set pre \<subseteq> {CHR 0x0A, CHR '' ''} \<and> set post \<subseteq> {CHR 0x0A, CHR '' ''})
       \<and> ''An error occurred during classification. Please try again.'' \<noteq> []
       \<and> predictions_list (state_of (classifyImage_settled (Response status body) st)) =
           predictions_list st
       \<and> results_display_d_none (state_of (classifyImage_settled (Response status body) st)) =
           results_display_d_none st
       \<and> fetches (classifyImage_call
             (state_of (classifyImage_settled (Response status body) st))) =
           fetches st @ [classify_request file]"
  using assms toast_text_envelope [OF text_char_general]
  by (simp add: settled_not_ok hideProcessing_def classifyImage_call_def showProcessing_def)

text \<open>Status 500 without a body for the photo's request; the retry is the second request.\<close>

theorem classifyImage_http_error_frame_witness:
  "currentFile (state_of (classifyImage_settled (Response 500 None) in_flight)) = Some photo
   \<and> toasts (state_of (classifyImage_settled (Response 500 None) in_flight)) =
       [toast ''An error occurred during classification. Please try again.'']
   \<and> (\<exists>pre post.
        text_of_markup (innerHTML
          (last (toasts (state_of (classifyImage_settled (Response 500 None) in_flight))))) =
          Some (pre @ ''An error occurred during classification. Please try again.'' @ post)
        \<and> set pre \<subseteq> {CHR 0x0A, CHR '' ''} \<and> set post \<subseteq> {CHR 0x0A, CHR '' ''})
   \<and> fetches (classifyImage_call (state_of (classifyImage_settled (Response 500 None) in_flight))) =
       [classify_request photo, classify_request photo]"
proof -
  have p: "currentFile in_flight = Some photo"
    by (simp add: in_flight_eq)
  have s: "\<not> response_ok 500"
    by (simp add: response_ok_def)
  have t: "toasts in_flight = []" "fetches in_flight = [classify_request photo]"
    by (simp_all add: in_flight_eq blank_fields)
  show ?thesis
    using classifyImage_http_error_frame [OF p s, of None]
    unfolding t append.simps by blast
qed


subsection \<open>Rendering the predictions\<close>







subsection \<open>The selected file is a validated one\<close>

lemma handleFileSelect_file_ok:
  assumes "file_ok st"
  shows "file_ok (state_of (handleFileSelect candidate st))"
proof (cases candidate)
  case None
  with assms show ?thesis by (simp add: handleFileSelect_def)
next
  case (Some f)
  with assms show ?thesis
    by (simp add: handleFileSelect_def showError_Str file_ok_def currentFile_select)
qed

lemma step_file_ok:
  assumes "file_ok st"
  shows "file_ok (step st e)"
proof (cases e)
  case (Change files)
  with assms show ?thesis by (simp add: handleFileSelect_file_ok)
next
  case (Drop files)
  with assms show ?thesis by (simp add: handleFileSelect_file_ok)
next
  case ClassifyButton
  with assms show ?thesis by (simp add: file_ok_def classifyImage_call_currentFile)
next
  case ClearButton
  then show ?thesis by (simp add: file_ok_def clearFile_def)
next
  case CtrlEnter
  with assms show ?thesis by (simp add: file_ok_def classifyImage_call_currentFile)
next
  case Escape
  then show ?thesis by (simp add: file_ok_def clearFile_def)
next
  case (Settled outcome)
  with assms show ?thesis by (simp add: file_ok_def classifyImage_settled_frame)
qed

lemma run_file_ok:
  assumes "file_ok st"
  shows "file_ok (run st events)"
  using assms unfolding run_def
  by (induction events arbitrary: st) (simp_all add: step_file_ok)

text \<open>
  Claim C10. Whenever \<open>currentFile\<close> is not \<open>null\<close> it holds a file of an accepted
  type and of at most 16777216 bytes. This holds after the constructor, each of
  \<open>handleFileSelect\<close>, \<open>clearFile\<close> and \<open>classifyImage\<close> (its call and its
  continuation) preserves it, and so does every sequence of events; \<open>clearFile\<close> sets
  \<open>currentFile\<close> to \<open>null\<close> and \<open>classifyImage\<close> never assigns it.
\<close>

theorem currentFile_always_validated:
  "file_ok (constructor doc)
   \<and> (file_ok st \<longrightarrow>
        file_ok (state_of (handleFileSelect candidate st))
        \<and> file_ok (clearFile st)
        \<and> file_ok (classifyImage_call st)
        \<and> file_ok (state_of (classifyImage_settled outcome st))
        \<and> file_ok (step st e)
        \<and> file_ok (run st events))
   \<and> file_ok (run (constructor doc) events)
   \<and> currentFile (clearFile st) = None
   \<and> currentFile (classifyImage_call st) = currentFile st
   \<and> currentFile (state_of (classifyImage_settled outcome st)) = currentFile st"
proof -
  have c: "file_ok (constructor doc)"
    by (simp add: file_ok_def constructor_def)
  have "file_ok (clearFile st)"
    by (simp add: file_ok_def clearFile_def)
  moreover have "file_ok (classifyImage_call st)" if "file_ok st"
    using that by (simp add: file_ok_def classifyImage_call_currentFile)
  moreover have "file_ok (state_of (classifyImage_settled outcome st))" if "file_ok st"
    using that by (simp add: file_ok_def classifyImage_settled_frame)
  moreover have "currentFile (clearFile st) = None"
    by (simp add: clearFile_def)
  ultimately show ?thesis
    using c run_file_ok [OF c] 
    by (simp add: handleFileSelect_file_ok step_file_ok run_file_ok
          classifyImage_call_currentFile classifyImage_settled_frame)
qed

text \<open>
  The PDF is refused, the photo accepted, classified and answered with status 500: the
  photo is the selected file, and it is an accepted one.
\<close>

theorem currentFile_always_validated_witness:
  "file_ok (run (constructor blank)
      [Change [huge_pdf], Change [photo], ClassifyButton, Settled (Response 500 None)])
   \<and> currentFile (run (constructor blank)
      [Change [huge_pdf], Change [photo], ClassifyButton, Settled (Response 500 None)])
       = Some photo
   \<and> isValidImageFile photo \<and> file_size photo \<le> 16777216"
proof -
  have v: "\<not> isValidImageFile huge_pdf" "isValidImageFile photo" "file_size photo \<le> 16777216"
    by (simp_all add: isValidImageFile_def huge_pdf_def photo_def)
  have p: "currentFile (step st (Change [photo])) = Some photo" for st
    by (simp add: handleFileSelect_def isValidImageFile_def photo_def currentFile_select)
  have q: "currentFile (step st (Settled outcome)) = currentFile st" for st outcome
    by (simp add: classifyImage_settled_frame)
  have s: "currentFile (step (step (step (step (constructor blank) (Change [huge_pdf]))
          (Change [photo])) ClassifyButton) (Settled (Response 500 None))) = Some photo"
    by (simp only: q step.simps(3) classifyImage_call_currentFile p)
  show ?thesis
    using currentFile_always_validated [of blank blank None NetworkError ClearButton
        "[Change [huge_pdf], Change [photo], ClassifyButton, Settled (Response 500 None)]"]
      s v
    by (simp add: run_def)
qed

subsection \<open>Calling \<open>classifyImage\<close> while a request is awaited\<close>

text \<open>
  Claim C1 as stated does not hold: \<open>classifyImage\<close> tests \<open>currentFile\<close> only, so a
  second call while the photo's request is awaited sends a second request.
\<close>

theorem classifyImage_second_call_counterexample:
  "0 < pending in_flight \<and> \<not> processing_d_none in_flight
   \<and> fetches in_flight = [classify_request photo]
   \<and> fetches (classifyImage_call in_flight) = [classify_request photo, classify_request photo]
   \<and> classifyImage_call in_flight \<noteq> in_flight"
proof -
  have f: "fetches (classifyImage_call in_flight) =
      [classify_request photo, classify_request photo]"
    by (simp add: in_flight_eq classifyImage_call_def showProcessing_def)
  have g: "fetches in_flight = [classify_request photo]"
    by (simp add: in_flight_eq)
  from f g have "classifyImage_call in_flight \<noteq> in_flight"
    by auto
  with f g show ?thesis
    by (simp add: in_flight_eq)
qed

text \<open>
  Claim C1, amended. While a request is awaited, a call of \<open>classifyImage\<close> changes
  nothing and sends nothing when no file is selected; when a file is selected it sends
  one more request to \<open>/classify\<close> carrying that file, shows the processing indicator
  and leaves \<open>currentFile\<close> as it is.
\<close>

theorem classifyImage_call_while_pending:
  assumes "0 < pending st"
  shows "(currentFile st = None \<longrightarrow> classifyImage_call st = st)
       \<and> (currentFile st = Some file \<longrightarrow>
            fetches (classifyImage_call st) = fetches st @ [classify_request file]
            \<and> pending (classifyImage_call st) = Suc (pending st)
            \<and> \<not> processing_d_none (classifyImage_call st)
            \<and> currentFile (classifyImage_call st) = Some file)"
  by (simp add: classifyImage_call_def showProcessing_def)

text \<open>
  With the photo's request awaited: after the file was cleared a call does nothing;
  with the photo still selected it sends the second request.
\<close>

theorem classifyImage_call_while_pending_witness:
  "0 < pending in_flight_cleared \<and> currentFile in_flight_cleared = None
   \<and> classifyImage_call in_flight_cleared = in_flight_cleared
   \<and> 0 < pending in_flight \<and> currentFile in_flight = Some photo
   \<and> fetches (classifyImage_call in_flight) = fetches in_flight @ [classify_request photo]
   \<and> pending (classifyImage_call in_flight) = 2"
proof -
  have a: "0 < pending in_flight_cleared" "currentFile in_flight_cleared = None"
    by (simp_all add: in_flight_cleared_eq clearFile_def in_flight_eq)
  have b: "0 < pending in_flight" "currentFile in_flight = Some photo" "pending in_flight = 1"
    by (simp_all add: in_flight_eq)
  show ?thesis
    using classifyImage_call_while_pending [OF a(1), of photo]
      classifyImage_call_while_pending [OF b(1), of photo] a b
    by simp
qed

subsection \<open>A whole classification\<close>

text \<open>
  A success response for a selected file: the results are shown, the file is handed to
  the preview, the rows are those of \<open>displayPredictions\<close>, the processing time is
  written and the indicator is hidden.
\<close>

lemma classifyImage_settled_success:
  assumes "currentFile st = Some file" and "response_ok status"
    and "get result ''success'' = Some success" and "ToBoolean success"
    and "get result ''predictions'' = Some predictions"
    and "get result ''processing_time'' = Some t" and "textContent_of t = Some text"
    and "displayPredictions predictions
           (st\<lparr>results_section_d_none := False, results_display_d_none := False,
               preview_reads := preview_reads st @ [file]\<rparr>) = Returned st'"
  shows "classifyImage_settled (Response status (Some result)) st =
           Returned (hideProcessing (st'\<lparr>processing_time_text := text\<rparr>))"
  using assms
  by (simp add: classifyImage_settled_def classifyImage_try_def displayResults_def
        displayImagePreview_def)

lemma golden_scenario:
  "run (constructor blank) [Change [photo], ClassifyButton, Settled (Response 200 (Some golden))] =
     blank\<lparr>currentFile := Some photo, file_name_text := ''photo.jpg'',
       file_size_bytes := 2097152, file_info_d_none := False, classify_btn_d_none := False,
       results_section_d_none := False, results_display_d_none := False,
       processing_d_none := True, fetches := [classify_request photo], pending := 0,
       preview_reads := [photo],
       predictions_list :=
         [\<lparr>className = ''prediction-item top-1'', cssText = [],
            innerHTML = item_markup ''golden retriever'' ''95'' 0\<rparr>],
       processing_time_text := ''0.15''\<rparr>"
proof -
  have r: "run (constructor blank) [Change [photo], ClassifyButton, Settled (Response 200 (Some golden))]
      = step in_flight (Settled (Response 200 (Some golden)))"
    by (simp add: run_def in_flight_def)
  have n: "show_nat (Suc 0) = ''1''"
    by (simp add: show_nat.simps)
  show ?thesis
    unfolding r
    by (simp add: in_flight_eq blank_def classifyImage_settled_def classifyImage_try_def
          response_ok_def golden_def displayResults_def displayImagePreview_def
          displayPredictions_def predictionItem_def hideProcessing_def n)
qed

end
